theory Spec2Isabelle
  imports Main "HOL-Library.Word"
begin

section \<open>Common values\<close>

text \<open>
  Document identifiers (ObjectId) are natural numbers, dates are integer milliseconds
  since the epoch, and a nullable path is an \<open>option\<close>. A thrown or forwarded \<open>Error\<close>
  carries its message; reading a property of \<open>undefined\<close> is \<open>TypeError\<close>; the document
  library rejects a save with \<open>ValidationError\<close>, \<open>VersionError\<close> or
  \<open>DocumentNotFoundError\<close>.

  Every \<open>new Date()\<close> and \<open>Date.now()\<close> of the source is an explicit argument holding the
  clock reading taken at that line.
\<close>

type_synonym objectId = nat
type_synonym date = int

datatype error = Error string | TypeError | ValidationError | VersionError | DocumentNotFoundError

subsection \<open>Strings\<close>

text \<open>
  A string value of a document is its sequence of UTF-16 code units. \<open>utf16\<close> writes a
  literal of Basic Latin characters as such a sequence.
\<close>

type_synonym jsstring = "16 word list"

definition utf16 :: "string \<Rightarrow> jsstring" where
  "utf16 s = map of_char s"

text \<open>
  \<open>String.prototype.trim\<close> strips white space and line terminators from both ends: TAB,
  LF, VT, FF, CR, SPACE, U+00A0, U+1680, U+2000 to U+200A, U+2028, U+2029, U+202F,
  U+205F, U+3000 and U+FEFF, each a single code unit.
\<close>

definition isWhiteSpace :: "16 word \<Rightarrow> bool" where
  "isWhiteSpace c =
     (let n = unat c
      in (9 \<le> n \<and> n \<le> 13) \<or> n = 32 \<or> n = 160 \<or> n = 5760 \<or> (8192 \<le> n \<and> n \<le> 8202) \<or>
         n = 8232 \<or> n = 8233 \<or> n = 8239 \<or> n = 8287 \<or> n = 12288 \<or> n = 65279)"

definition trim :: "jsstring \<Rightarrow> jsstring" where
  "trim s = rev (dropWhile isWhiteSpace (rev (dropWhile isWhiteSpace s)))"

text \<open>
  \<open>String.prototype.toLowerCase\<close> follows the Unicode case tables, which are not part of
  the repository: wherever the source calls it, the model takes the function as the
  argument \<open>lower\<close>. \<open>latin1_lower\<close> is the function passed for \<open>lower\<close> when an example
  is run. On a string of code units below 256 it returns what \<open>toLowerCase\<close> returns (A
  to Z and the accented capitals 192 to 222, the multiplication sign 215 apart, move
  up by 32), and the examples contain no other strings; it is not the library function
  on the code units above.
\<close>

definition latin1_lower_unit :: "16 word \<Rightarrow> 16 word" where
  "latin1_lower_unit c =
     (let n = unat c
      in if (65 \<le> n \<and> n \<le> 90) \<or> (192 \<le> n \<and> n \<le> 222 \<and> n \<noteq> 215) then c + 32 else c)"

definition latin1_lower :: "jsstring \<Rightarrow> jsstring" where
  "latin1_lower s = map latin1_lower_unit s"

text \<open>
  A pattern of the schema is matched by derivatives. \<open>Class P\<close> is one code unit
  satisfying \<open>P\<close>; \<open>matches r s\<close> is \<open>/^r$/.test(s)\<close>.
\<close>

datatype rexp = R_fail | R_eps | R_class "16 word \<Rightarrow> bool" | R_seq rexp rexp | R_alt rexp rexp | R_star rexp

fun nullable :: "rexp \<Rightarrow> bool" where
  "nullable R_fail = False"
| "nullable R_eps = True"
| "nullable (R_class P) = False"
| "nullable (R_seq r s) = (nullable r \<and> nullable s)"
| "nullable (R_alt r s) = (nullable r \<or> nullable s)"
| "nullable (R_star r) = True"

fun deriv :: "16 word \<Rightarrow> rexp \<Rightarrow> rexp" where
  "deriv c R_fail = R_fail"
| "deriv c R_eps = R_fail"
| "deriv c (R_class P) = (if P c then R_eps else R_fail)"
| "deriv c (R_seq r s) =
     (if nullable r then R_alt (R_seq (deriv c r) s) (deriv c s) else R_seq (deriv c r) s)"
| "deriv c (R_alt r s) = R_alt (deriv c r) (deriv c s)"
| "deriv c (R_star r) = R_seq (deriv c r) (R_star r)"

fun matches :: "rexp \<Rightarrow> jsstring \<Rightarrow> bool" where
  "matches r [] = nullable r"
| "matches r (c # cs) = matches (deriv c r) cs"

definition R_plus :: "rexp \<Rightarrow> rexp" where
  "R_plus r = R_seq r (R_star r)"

definition R_opt :: "rexp \<Rightarrow> rexp" where
  "R_opt r = R_alt r R_eps"

text \<open>\<open>\w\<close> is a letter of Basic Latin, a digit or the underscore.\<close>

definition isWordChar :: "16 word \<Rightarrow> bool" where
  "isWordChar c =
     (let n = unat c
      in (48 \<le> n \<and> n \<le> 57) \<or> (65 \<le> n \<and> n \<le> 90) \<or> n = 95 \<or> (97 \<le> n \<and> n \<le> 122))"

subsection \<open>Numbers\<close>

text \<open>
  A Number path holds an integer-valued double. \<open>to_double\<close> rounds an integer of
  magnitude below \<open>2 ^ 1024\<close> to the nearest double, ties to the even mantissa: the
  spacing \<open>q\<close> of the doubles around it is the first power of two that brings the
  mantissa below \<open>2 ^ 53\<close>. Up to \<open>2 ^ 53\<close> every integer is a double. \<open>js_add\<close> is
  \<open>+\<close> on such values.
\<close>

definition spacing :: "int \<Rightarrow> int option" where
  "spacing a = find (\<lambda>q. a div q < 2 ^ 53) (map (\<lambda>e. 2 ^ e) [1 ..< 972])"

definition to_double :: "int \<Rightarrow> int" where
  "to_double x =
     (if \<bar>x\<bar> \<le> 2 ^ 53 then x
      else case spacing \<bar>x\<bar> of
             None \<Rightarrow> x
           | Some q \<Rightarrow>
               (let m = \<bar>x\<bar> div q;
                    r = \<bar>x\<bar> mod q;
                    m' = (if 2 * r > q \<or> (2 * r = q \<and> odd m) then m + 1 else m)
                in sgn x * (m' * q)))"

definition js_add :: "int \<Rightarrow> int \<Rightarrow> int" where
  "js_add a b = to_double (a + b)"

section \<open>Page model\<close>

datatype page_status = Draft | Published | Scheduled | Archived

record version_entry =
  versionNumber :: int
  v_title :: jsstring
  v_content :: jsstring
  v_author :: "objectId option"
  v_createdAt :: date
  v_changes :: "jsstring option"

record page_seo =
  metaTitle :: jsstring
  metaDescription :: jsstring

record advanced_features =
  enableVersioning :: bool
  versionHistory :: "version_entry list option"
  currentVersion :: int

text \<open>
  The paths of a page that the hooks and methods read or write. An absent string path
  is the empty string, which JavaScript treats as falsy too.
\<close>

record page =
  title :: jsstring
  content :: jsstring
  excerpt :: jsstring
  author :: "objectId option"
  lastModifiedBy :: "objectId option"
  status :: page_status
  publishedAt :: "date option"
  updatedAt :: date
  seo :: page_seo
  pageViews :: int
  advancedFeatures :: advanced_features

text \<open>
  What a call of \<open>save()\<close> on a page meets outside the document: whether the validators
  of the paths not listed in the record pass, the store's answer to the write (\<open>None\<close>
  when it is applied), whether the path \<open>content\<close> is marked modified when the call
  starts, and the clock readings taken by the hooks (\<open>t_upd\<close> for \<open>updatedAt\<close>, \<open>t_pub\<close>
  inside the \<open>publishedAt\<close> branch, \<open>t_ver\<close> for a new version entry). The call is
  made on a document at rest: no earlier \<open>save()\<close> of the same object is still running.
\<close>

record save_call =
  other_paths_valid :: bool
  write_error :: "error option"
  content_marked :: bool
  t_upd :: date
  t_pub :: date
  t_ver :: date

text \<open>
  The declared validators of the listed paths, which the library runs before any
  pre-save hook: \<open>title\<close> is required and at most 200 units long, \<open>content\<close> and \<open>author\<close>
  are required, \<open>excerpt\<close> has at most 500 units, the two meta fields at most 60 and 160.
  A required string must be present and non-empty.
\<close>

definition validate_page :: "page \<Rightarrow> bool" where
  "validate_page p =
     (title p \<noteq> [] \<and> length (title p) \<le> 200 \<and> content p \<noteq> [] \<and> author p \<noteq> None \<and>
      length (excerpt p) \<le> 500 \<and> length (metaTitle (seo p)) \<le> 60 \<and>
      length (metaDescription (seo p)) \<le> 160)"

text \<open>
  \<open>PageSchema.pre('save')\<close>. A \<open>Date\<close> object is always truthy, so \<open>!this.publishedAt\<close>
  holds exactly for \<open>None\<close>; \<open>substring(0, n)\<close> keeps the first \<open>n\<close> code units.
\<close>

definition PageSchema_pre_save :: "date \<Rightarrow> date \<Rightarrow> page \<Rightarrow> page" where
  "PageSchema_pre_save t_u t_p p =
     (let p1 = p\<lparr>updatedAt := t_u\<rparr>;
          p2 = (if status p1 = Published \<and> publishedAt p1 = None
                then p1\<lparr>publishedAt := Some t_p\<rparr> else p1);
          p3 = (if metaTitle (seo p2) = [] \<and> title p2 \<noteq> []
                then p2\<lparr>seo := (seo p2)\<lparr>metaTitle := take 60 (title p2)\<rparr>\<rparr> else p2);
          p4 = (if metaDescription (seo p3) = [] \<and> excerpt p3 \<noteq> []
                then p3\<lparr>seo := (seo p3)\<lparr>metaDescription := take 160 (excerpt p3)\<rparr>\<rparr> else p3)
      in p4)"

text \<open>The array read by the version code: a missing \<open>versionHistory\<close> is replaced by \<open>[]\<close>.\<close>

definition history :: "page \<Rightarrow> version_entry list" where
  "history p = (case versionHistory (advancedFeatures p) of None \<Rightarrow> [] | Some h \<Rightarrow> h)"

text \<open>The object pushed by the post-save hook; \<open>lastModifiedBy || author\<close> picks the author.\<close>

definition snapshot :: "date \<Rightarrow> page \<Rightarrow> version_entry" where
  "snapshot t doc =
     \<lparr>versionNumber = currentVersion (advancedFeatures doc),
      v_title = title doc,
      v_content = content doc,
      v_author = (case lastModifiedBy doc of Some u \<Rightarrow> Some u | None \<Rightarrow> author doc),
      v_createdAt = t,
      v_changes = None\<rparr>"

text \<open>
  \<open>PageSchema.post('save')\<close>. \<open>content_modified\<close> is the value \<open>this.isModified('content')\<close>
  yields when the hook runs, \<open>t\<close> the clock reading stored in the new entry.
\<close>

definition PageSchema_post_save :: "bool \<Rightarrow> date \<Rightarrow> page \<Rightarrow> page" where
  "PageSchema_post_save content_modified t doc =
     (if enableVersioning (advancedFeatures doc) \<and> content_modified
      then doc\<lparr>advancedFeatures := (advancedFeatures doc)
                 \<lparr>versionHistory := Some (history doc @ [snapshot t doc]),
                  currentVersion := js_add (currentVersion (advancedFeatures doc)) 1\<rparr>\<rparr>
      else doc)"

text \<open>
  The library clears the modification marks of a document as soon as its write has been
  applied, before the \<open>post('save')\<close> hooks run: whatever was marked when \<open>save()\<close> was
  called, \<open>isModified\<close> answers false inside such a hook.
\<close>

definition isModified_in_post_save :: "bool \<Rightarrow> bool" where
  "isModified_in_post_save marked_at_call = False"

text \<open>
  \<open>save()\<close> on a page. Validation comes first and, when it fails, rejects the call with
  the document untouched. Then the pre-save hook runs, which always calls \<open>next()\<close>
  without an error, then the write; a write the store refuses rejects the call and the
  post-save hook does not run. The result is the outcome and the in-memory document.
\<close>

definition page_save :: "save_call \<Rightarrow> page \<Rightarrow> error option \<times> page" where
  "page_save call p =
     (if \<not> (validate_page p \<and> other_paths_valid call) then (Some ValidationError, p)
      else let p1 = PageSchema_pre_save (t_upd call) (t_pub call) p
           in case write_error call of
                Some e \<Rightarrow> (Some e, p1)
              | None \<Rightarrow>
                  (None, PageSchema_post_save (isModified_in_post_save (content_marked call))
                           (t_ver call) p1))"

text \<open>\<open>PageSchema.methods.publish\<close>; \<open>t_now\<close> is the clock reading of the method itself.\<close>

definition publish :: "date \<Rightarrow> save_call \<Rightarrow> page \<Rightarrow> error option \<times> page" where
  "publish t_now call p = page_save call (p\<lparr>status := Published, publishedAt := Some t_now\<rparr>)"

text \<open>
  \<open>PageSchema.methods.revert\<close>. A throw happens before any assignment.
  \<open>Array.prototype.find\<close> returns the first matching element; calling it on a missing
  array is a \<open>TypeError\<close>. The path \<open>title\<close> is declared with \<open>trim: true\<close>, so the
  assignment stores the trimmed value; \<open>content\<close> has no setter and becomes marked when
  the value assigned differs from the one held.
\<close>

definition revert :: "int \<Rightarrow> save_call \<Rightarrow> page \<Rightarrow> error option \<times> page" where
  "revert vn call p =
     (case versionHistory (advancedFeatures p) of
        None \<Rightarrow> (Some TypeError, p)
      | Some h \<Rightarrow>
          (case find (\<lambda>v. versionNumber v = vn) h of
             None \<Rightarrow> (Some (Error ''Version not found''), p)
           | Some version \<Rightarrow>
               page_save
                 (call\<lparr>content_marked := content_marked call \<or> v_content version \<noteq> content p\<rparr>)
                 (p\<lparr>content := v_content version, title := trim (v_title version)\<rparr>)))"




text \<open>
  A draft page with one stored version, the collection holding it under the id 3, and a
  save call that meets no obstacle outside the listed paths.
\<close>

definition page0 :: page where
  "page0 =
     \<lparr>title = utf16 ''Home'', content = utf16 ''Welcome'', excerpt = utf16 ''Intro'',
      author = Some 7, lastModifiedBy = None, status = Draft, publishedAt = None,
      updatedAt = 1000, seo = \<lparr>metaTitle = [], metaDescription = []\<rparr>, pageViews = 0,
      advancedFeatures =
        \<lparr>enableVersioning = True,
         versionHistory =
           Some [\<lparr>versionNumber = 1, v_title = utf16 '' Old '', v_content = utf16 ''Hello'',
                  v_author = Some 7, v_createdAt = 500, v_changes = None\<rparr>],
         currentVersion = 2\<rparr>\<rparr>"


definition call0 :: save_call where
  "call0 =
     \<lparr>other_paths_valid = True, write_error = None, content_marked = True,
      t_upd = 2000, t_pub = 2001, t_ver = 2002\<rparr>"

section \<open>Media model\<close>

datatype media_type = Image_media | Video_media | Audio_media | Document_media | Other_media

record image_metadata =
  width :: "int option"
  height :: "int option"

record media_analytics =
  views :: int
  downloads :: int
  shares :: int

text \<open>
  The paths of a media record that the hook and the counter methods read or write,
  with its identifier and its version key \<open>__v\<close>.
\<close>

record media =
  media_id :: objectId
  version :: nat
  mediaType :: media_type
  imageMetadata :: "image_metadata option"
  tags :: "jsstring list option"
  analytics :: media_analytics

text \<open>
  \<open>[...new Set(xs)]\<close>: the set is filled in iteration order, an element already present
  is skipped, and spreading lists the elements in insertion order.
\<close>

definition Set_add :: "'a list \<Rightarrow> 'a \<Rightarrow> 'a list" where
  "Set_add acc x = (if x \<in> set acc then acc else acc @ [x])"

definition new_Set :: "'a list \<Rightarrow> 'a list" where
  "new_Set xs = foldl Set_add [] xs"

text \<open>The arrow function mapped over the tags.\<close>

definition normalize_tag :: "(jsstring \<Rightarrow> jsstring) \<Rightarrow> jsstring \<Rightarrow> jsstring" where
  "normalize_tag lower tag = trim (lower tag)"

text \<open>
  The elements of \<open>tags\<close> are declared with \<open>trim: true, lowercase: true\<close>. An assignment
  to the path passes each element through these setters, the one declared last first.
\<close>

definition tags_setter :: "(jsstring \<Rightarrow> jsstring) \<Rightarrow> jsstring list \<Rightarrow> jsstring list" where
  "tags_setter lower ts = map (\<lambda>t. trim (lower t)) ts"

text \<open>Position of the first occurrence of an element in a list (the length when absent).\<close>

fun first_index :: "'a \<Rightarrow> 'a list \<Rightarrow> nat" where
  "first_index x [] = 0"
| "first_index x (y # ys) = (if x = y then 0 else Suc (first_index x ys))"

text \<open>
  \<open>MediaSchema.pre('save')\<close>, in its two steps. The tags are rewritten first, so they stay
  rewritten in memory when the dimension check then forwards an error. In
  \<open>w && w <= 0\<close> a missing or zero \<open>w\<close> is falsy and ends the test.
\<close>

definition normalize_tags :: "(jsstring \<Rightarrow> jsstring) \<Rightarrow> media \<Rightarrow> media" where
  "normalize_tags lower m =
     (case tags m of
        None \<Rightarrow> m
      | Some ts \<Rightarrow>
          if length ts > 0
          then m\<lparr>tags := Some (tags_setter lower (new_Set (map (normalize_tag lower) ts)))\<rparr>
          else m)"

definition truthy_and_not_positive :: "int option \<Rightarrow> bool" where
  "truthy_and_not_positive x = (case x of None \<Rightarrow> False | Some n \<Rightarrow> n \<noteq> 0 \<and> n \<le> 0)"

definition check_dimensions :: "media \<Rightarrow> error option" where
  "check_dimensions m =
     (if mediaType m = Image_media then
        (case imageMetadata m of
           None \<Rightarrow> None
         | Some im \<Rightarrow>
             if truthy_and_not_positive (width im)
             then Some (Error ''Image width must be greater than 0'')
             else if truthy_and_not_positive (height im)
             then Some (Error ''Image height must be greater than 0'')
             else None)
      else None)"

definition MediaSchema_pre_save :: "(jsstring \<Rightarrow> jsstring) \<Rightarrow> media \<Rightarrow> error option \<times> media" where
  "MediaSchema_pre_save lower m = (let m1 = normalize_tags lower m in (check_dimensions m1, m1))"



datatype counter = Views | Downloads | Shares

definition get_counter :: "counter \<Rightarrow> media \<Rightarrow> int" where
  "get_counter c m =
     (case c of Views \<Rightarrow> views (analytics m)
              | Downloads \<Rightarrow> downloads (analytics m)
              | Shares \<Rightarrow> shares (analytics m))"

definition put_counter :: "counter \<Rightarrow> int \<Rightarrow> media \<Rightarrow> media" where
  "put_counter c v m =
     (case c of Views \<Rightarrow> m\<lparr>analytics := (analytics m)\<lparr>views := v\<rparr>\<rparr>
              | Downloads \<Rightarrow> m\<lparr>analytics := (analytics m)\<lparr>downloads := v\<rparr>\<rparr>
              | Shares \<Rightarrow> m\<lparr>analytics := (analytics m)\<lparr>shares := v\<rparr>\<rparr>)"

text \<open>The three counters are declared with \<open>min: 0\<close>.\<close>

definition validate_media :: "media \<Rightarrow> bool" where
  "validate_media m =
     (0 \<le> views (analytics m) \<and> 0 \<le> downloads (analytics m) \<and> 0 \<le> shares (analytics m))"








text \<open>
  An image record with untidy tags, the same record with its tags already lower-case,
  trimmed and distinct, and the collection holding the latter under its id.
\<close>

definition media0 :: media where
  "media0 =
     \<lparr>media_id = 1, version = 0, mediaType = Image_media,
      imageMetadata = Some \<lparr>width = Some 0, height = Some 600\<rparr>,
      tags = Some [utf16 '' Hero'', utf16 ''banner'', utf16 ''HERO '', utf16 ''Banner'',
                   utf16 ''logo''],
      analytics = \<lparr>views = 5, downloads = 0, shares = 0\<rparr>\<rparr>"



section \<open>User model\<close>

text \<open>
  A user document is the dictionary of its stored fields. \<open>toObject()\<close> returns a fresh
  plain object with the same fields (the user schema sets no transform and no virtuals);
  documents being values here, the copy is the dictionary itself.
\<close>

datatype js_value = JString string | JBool bool | JDate date | JObjectId objectId | JNull

type_synonym js_object = "string \<rightharpoonup> js_value"

definition toObject :: "js_object \<Rightarrow> js_object" where
  "toObject this = this"

definition delete_key :: "js_object \<Rightarrow> string \<Rightarrow> js_object" where
  "delete_key obj k = obj(k := None)"

definition getPublicProfile :: "js_object \<Rightarrow> js_object" where
  "getPublicProfile this =
     (let userObject = toObject this;
          userObject = delete_key userObject ''password'';
          userObject = delete_key userObject ''verificationToken'';
          userObject = delete_key userObject ''passwordResetToken'';
          userObject = delete_key userObject ''passwordResetExpires''
      in userObject)"

text \<open>\<open>Buffer.prototype.toString('hex')\<close>: two lower-case hexadecimal digits for each byte.\<close>

definition hex_digit :: "nat \<Rightarrow> char" where
  "hex_digit n = (if n < 10 then char_of (48 + n) else char_of (87 + n))"

definition hex_byte :: "8 word \<Rightarrow> string" where
  "hex_byte b = [hex_digit (unat b div 16), hex_digit (unat b mod 16)]"

definition toString_hex :: "8 word list \<Rightarrow> string" where
  "toString_hex bytes = concat (map hex_byte bytes)"

text \<open>
  \<open>userSchema.methods.generatePasswordResetToken\<close>. \<open>sha256_hex\<close> stands for
  \<open>createHash('sha256').update(_).digest('hex')\<close>, \<open>random_bytes\<close> for the buffer that
  \<open>crypto.randomBytes(32)\<close> returned and \<open>now\<close> for the reading of \<open>Date.now()\<close>. The
  result is the returned token and the document with the two assignments made; the
  method does not save.
\<close>

definition generatePasswordResetToken ::
  "(string \<Rightarrow> string) \<Rightarrow> 8 word list \<Rightarrow> date \<Rightarrow> js_object \<Rightarrow> string \<times> js_object" where
  "generatePasswordResetToken sha256_hex random_bytes now this =
     (let resetToken = toString_hex random_bytes;
          this1 = this(''passwordResetToken'' \<mapsto> JString (sha256_hex resetToken));
          this2 = this1(''passwordResetExpires'' \<mapsto> JDate (now + 30 * 60 * 1000))
      in (resetToken, this2))"

text \<open>A loaded user with its secret fields selected, used to run the operations on.\<close>

definition user0 :: js_object where
  "user0 =
     [''username'' \<mapsto> JString ''ayse'', ''email'' \<mapsto> JString ''ayse@example.com'',
      ''password'' \<mapsto> JString ''$2a$10$hash'', ''role'' \<mapsto> JString ''admin'',
      ''isActive'' \<mapsto> JBool True, ''verificationToken'' \<mapsto> JString ''vt'',
      ''passwordResetToken'' \<mapsto> JString ''old'', ''passwordResetExpires'' \<mapsto> JDate 10,
      ''lastLogin'' \<mapsto> JNull]"

section \<open>Settings model\<close>

record contact_info =
  email :: "jsstring option"
  phone :: "jsstring option"

record security_settings =
  passwordMinLength :: int

record performance_settings =
  imageQuality :: int

record settings =
  contact :: contact_info
  security :: security_settings
  performance :: performance_settings

text \<open>\<open>!s\<close> for a string path: true for a missing value and for the empty string.\<close>

definition not_string :: "jsstring option \<Rightarrow> bool" where
  "not_string s = (case s of None \<Rightarrow> True | Some v \<Rightarrow> v = [])"

text \<open>
  The pattern declared for \<open>contact.email\<close>:
  \<open>/^\w+([\.-]?\w+)*@\w+([\.-]?\w+)*(\.\w{2,3})+$/\<close>.
\<close>

definition email_pattern :: rexp where
  "email_pattern =
     (let w = R_class isWordChar;
          sep = R_class (\<lambda>c. c = 46 \<or> c = 45);
          dot = R_class (\<lambda>c. c = 46);
          at = R_class (\<lambda>c. c = 64);
          name = R_seq (R_plus w) (R_star (R_seq (R_opt sep) (R_plus w)))
      in R_seq name (R_seq at (R_seq name (R_plus (R_seq dot (R_seq w (R_seq w (R_opt w))))))))"

text \<open>
  The declared validators of the listed paths, run before the pre-save hook:
  \<open>contact.email\<close> and \<open>contact.phone\<close> are both \<open>required\<close> (present and non-empty), a
  non-empty email must match the pattern, \<open>security.passwordMinLength\<close> has \<open>min: 6\<close> and
  \<open>performance.imageQuality\<close> has \<open>min: 1, max: 100\<close>.
\<close>

definition email_matches :: "jsstring option \<Rightarrow> bool" where
  "email_matches e = (case e of None \<Rightarrow> True | Some v \<Rightarrow> v = [] \<or> matches email_pattern v)"

definition validate_settings :: "settings \<Rightarrow> bool" where
  "validate_settings this =
     (\<not> not_string (email (contact this)) \<and> email_matches (email (contact this)) \<and>
      \<not> not_string (phone (contact this)) \<and>
      6 \<le> passwordMinLength (security this) \<and>
      1 \<le> imageQuality (performance this) \<and> imageQuality (performance this) \<le> 100)"

text \<open>\<open>SettingsSchema.pre('save')\<close>: the error handed to \<open>next\<close>, if any.\<close>

definition SettingsSchema_pre_save :: "settings \<Rightarrow> error option" where
  "SettingsSchema_pre_save this =
     (if not_string (email (contact this)) \<and> not_string (phone (contact this))
      then Some (Error ''At least email or phone contact information must be provided'')
      else if passwordMinLength (security this) < 6
      then Some (Error ''Password minimum length must be at least 6 characters'')
      else if imageQuality (performance this) < 1 \<or> imageQuality (performance this) > 100
      then Some (Error ''Image quality must be between 1 and 100'')
      else None)"

text \<open>
  \<open>save()\<close> on a Settings document: validation, then the pre-save hook, then the write.
  \<open>other_valid\<close> tells whether the validators of the paths not listed in the record
  pass, \<open>write_err\<close> is the store's answer to the write. The document is not changed.
\<close>

definition settings_save :: "bool \<Rightarrow> error option \<Rightarrow> settings \<Rightarrow> error option" where
  "settings_save other_valid write_err this =
     (if \<not> (validate_settings this \<and> other_valid) then Some ValidationError
      else case SettingsSchema_pre_save this of
             Some e \<Rightarrow> Some e
           | None \<Rightarrow> write_err)"

text \<open>Settings with the schema defaults for the two numeric paths and no contact channel.\<close>

definition settings0 :: settings where
  "settings0 =
     \<lparr>contact = \<lparr>email = None, phone = Some []\<rparr>,
      security = \<lparr>passwordMinLength = 8\<rparr>,
      performance = \<lparr>imageQuality = 80\<rparr>\<rparr>"

section \<open>Page: saving, publishing and reverting\<close>

lemma pre_save_keeps [simp]:
  "advancedFeatures (PageSchema_pre_save t_u t_p p) = advancedFeatures p"
  "title (PageSchema_pre_save t_u t_p p) = title p"
  "content (PageSchema_pre_save t_u t_p p) = content p"
  "status (PageSchema_pre_save t_u t_p p) = status p"
  "author (PageSchema_pre_save t_u t_p p) = author p"
  "lastModifiedBy (PageSchema_pre_save t_u t_p p) = lastModifiedBy p"
  by (simp_all add: PageSchema_pre_save_def Let_def)

lemma pre_save_publishedAt:
  "publishedAt (PageSchema_pre_save t_u t_p p) =
     (if status p = Published \<and> publishedAt p = None then Some t_p else publishedAt p)"
  by (simp add: PageSchema_pre_save_def Let_def)

lemma history_pre_save [simp]:
  "history (PageSchema_pre_save t_u t_p p) = history p"
  by (simp add: history_def)

lemma post_save_unmarked [simp]: "PageSchema_post_save False t p = p"
  by (simp add: PageSchema_post_save_def)

text \<open>
  What the post-save hook does when \<open>isModified('content')\<close> answers true: it appends the
  snapshot numbered with the current version and raises the counter.
\<close>

lemma post_save_marked:
  "enableVersioning (advancedFeatures p) \<Longrightarrow>
     history (PageSchema_post_save True t p) = history p @ [snapshot t p] \<and>
     versionNumber (snapshot t p) = currentVersion (advancedFeatures p) \<and>
     currentVersion (advancedFeatures (PageSchema_post_save True t p))
       = js_add (currentVersion (advancedFeatures p)) 1"
  by (simp add: PageSchema_post_save_def history_def snapshot_def)

lemma page_save_eq:
  "page_save call p =
     (if validate_page p \<and> other_paths_valid call
      then (write_error call, PageSchema_pre_save (t_upd call) (t_pub call) p)
      else (Some ValidationError, p))"
  by (cases "write_error call")
     (simp_all add: page_save_def Let_def isModified_in_post_save_def)

lemma validate_page_required:
  "title p = [] \<or> content p = [] \<or> author p = None \<Longrightarrow> \<not> validate_page p"
  by (auto simp: validate_page_def)

lemma validate_page0: "validate_page page0"
  by (simp add: validate_page_def page0_def utf16_def)

text \<open>
  C1. The code does not do what the claim says. The post-save hook tests
  \<open>this.isModified('content')\<close>, and inside a post-save hook that test is false: a save
  of a page with versioning enabled and modified content appends nothing to the version
  history and leaves \<open>currentVersion\<close> as it was, like every other save.
\<close>

theorem save_never_appends_version:
  "history (snd (page_save call p)) = history p \<and>
   advancedFeatures (snd (page_save call p)) = advancedFeatures p"
  by (simp add: page_save_eq)

theorem save_never_appends_version_witness:
  "enableVersioning (advancedFeatures (page0\<lparr>content := utf16 ''Changed''\<rparr>)) \<and>
   content_marked call0 \<and>
   fst (page_save call0 (page0\<lparr>content := utf16 ''Changed''\<rparr>)) = None \<and>
   content (snd (page_save call0 (page0\<lparr>content := utf16 ''Changed''\<rparr>))) = utf16 ''Changed'' \<and>
   length (history (page0\<lparr>content := utf16 ''Changed''\<rparr>)) = 1 \<and>
   length (history (snd (page_save call0 (page0\<lparr>content := utf16 ''Changed''\<rparr>)))) = 1 \<and>
   currentVersion (advancedFeatures (snd (page_save call0 (page0\<lparr>content := utf16 ''Changed''\<rparr>))))
     = 2"
proof -
  have v: "validate_page (page0\<lparr>content := utf16 ''Changed''\<rparr>)"
    by (simp add: validate_page_def page0_def utf16_def)
  have h: "history (page0\<lparr>content := utf16 ''Changed''\<rparr>) = history page0"
    by (simp add: history_def)
  have h0: "length (history page0) = 1"
    by (simp add: history_def page0_def)
  have rest: "enableVersioning (advancedFeatures page0)"
    "currentVersion (advancedFeatures page0) = 2" "content_marked call0"
    "other_paths_valid call0" "write_error call0 = None"
    by (simp_all add: page0_def call0_def)
  from save_never_appends_version [of call0 "page0\<lparr>content := utf16 ''Changed''\<rparr>"] v h h0 rest
  show ?thesis by (simp add: page_save_eq)
qed




lemma trim_utf16_Old: "trim (utf16 '' Old '') = utf16 ''Old''"
  by (simp add: trim_def utf16_def isWhiteSpace_def)

lemma history_page0:
  "history page0 =
     [\<lparr>versionNumber = 1, v_title = utf16 '' Old '', v_content = utf16 ''Hello'',
       v_author = Some 7, v_createdAt = 500, v_changes = None\<rparr>]"
  by (simp add: page0_def history_def)

lemma revert_found:
  assumes "versionHistory (advancedFeatures p) = Some h"
    and "find (\<lambda>w. versionNumber w = vn) h = Some v"
  shows "revert vn call p =
           page_save (call\<lparr>content_marked := content_marked call \<or> v_content v \<noteq> content p\<rparr>)
             (p\<lparr>content := v_content v, title := trim (v_title v)\<rparr>)"
  using assms by (simp add: revert_def)

text \<open>
  C5, as stated, fails: the stored version 1 of \<open>page0\<close> has the title \<open>" Old "\<close>, and after
  \<open>revert(1)\<close> the live title is \<open>"Old"\<close>, because the title path trims what is assigned.
\<close>

theorem revert_trims_title:
  "map versionNumber (history page0) = [1] \<and>
   map v_title (history page0) = [utf16 '' Old ''] \<and>
   fst (revert 1 call0 page0) = None \<and>
   title (snd (revert 1 call0 page0)) = utf16 ''Old'' \<and>
   title (snd (revert 1 call0 page0)) \<noteq> utf16 '' Old ''"
proof -
  have h: "versionHistory (advancedFeatures page0) = Some (history page0)"
    by (simp add: history_page0) (simp add: page0_def)
  have f: "find (\<lambda>w. versionNumber w = 1) (history page0) = Some (hd (history page0))"
    by (simp add: history_page0)
  have v: "validate_page (page0\<lparr>content := utf16 ''Hello'', title := utf16 ''Old''\<rparr>)"
    by (simp add: validate_page_def page0_def utf16_def)
  have c: "other_paths_valid call0" "write_error call0 = None"
    by (simp_all add: call0_def)
  show ?thesis
    using v c
    by (simp add: revert_found [OF h f] history_page0 trim_utf16_Old page_save_eq)
       (simp add: utf16_def)
qed

text \<open>
  C5, amended. \<open>revert(versionNumber)\<close> on a page none of whose history entries has that
  number ends with an error and hands back the document exactly as it was. When an
  entry has the number, the live content becomes the content of the entry that \<open>find\<close>
  returns (the first one with that number) and the live title becomes that entry's
  title with outer white space trimmed; the call then ends as the save of the restored
  document does: rejected when the restored title or content is empty, and with the
  answer of the write when the restored document passes validation.
\<close>

theorem revert_version:
  "((\<forall>v \<in> set (history p). versionNumber v \<noteq> vn) \<longrightarrow>
      (\<exists>e. revert vn call p = (Some e, p))) \<and>
   ((\<exists>v \<in> set (history p). versionNumber v = vn) \<longrightarrow>
      (\<exists>v \<in> set (history p). versionNumber v = vn \<and>
         find (\<lambda>w. versionNumber w = vn) (history p) = Some v \<and>
         title (snd (revert vn call p)) = trim (v_title v) \<and>
         content (snd (revert vn call p)) = v_content v \<and>
         (trim (v_title v) = [] \<or> v_content v = [] \<longrightarrow>
            fst (revert vn call p) = Some ValidationError) \<and>
         (validate_page (p\<lparr>content := v_content v, title := trim (v_title v)\<rparr>) \<and>
          other_paths_valid call \<longrightarrow>
            fst (revert vn call p) = write_error call)))"
proof (intro conjI impI)
  assume none: "\<forall>v \<in> set (history p). versionNumber v \<noteq> vn"
  show "\<exists>e. revert vn call p = (Some e, p)"
  proof (cases "versionHistory (advancedFeatures p)")
    case None
    then show ?thesis by (simp add: revert_def)
  next
    case (Some h)
    with none have "find (\<lambda>v. versionNumber v = vn) h = None"
      by (simp add: history_def find_None_iff)
    with Some show ?thesis by (simp add: revert_def)
  qed
next
  assume "\<exists>v \<in> set (history p). versionNumber v = vn"
  then obtain u where u: "u \<in> set (history p)" "versionNumber u = vn"
    by blast
  then obtain h where h: "versionHistory (advancedFeatures p) = Some h" "history p = h"
    by (cases "versionHistory (advancedFeatures p)") (auto simp: history_def)
  from u h have "find (\<lambda>w. versionNumber w = vn) h \<noteq> None"
    by (auto simp: find_None_iff)
  then obtain v where v: "find (\<lambda>w. versionNumber w = vn) h = Some v"
    by blast
  then have mem: "v \<in> set h" "versionNumber v = vn"
    by (auto simp: find_Some_iff)
  let ?p' = "p\<lparr>content := v_content v, title := trim (v_title v)\<rparr>"
  have r: "revert vn call p =
      page_save (call\<lparr>content_marked := content_marked call \<or> v_content v \<noteq> content p\<rparr>) ?p'"
    by (rule revert_found [OF h(1) v])
  have bad: "trim (v_title v) = [] \<or> v_content v = [] \<Longrightarrow> \<not> validate_page ?p'"
    by (rule validate_page_required) auto
  have "title (snd (revert vn call p)) = trim (v_title v)"
    "content (snd (revert vn call p)) = v_content v"
    "trim (v_title v) = [] \<or> v_content v = [] \<longrightarrow> fst (revert vn call p) = Some ValidationError"
    "validate_page ?p' \<and> other_paths_valid call \<longrightarrow> fst (revert vn call p) = write_error call"
    using bad by (auto simp: r page_save_eq)
  with v h mem show "\<exists>v \<in> set (history p). versionNumber v = vn \<and>
         find (\<lambda>w. versionNumber w = vn) (history p) = Some v \<and>
         title (snd (revert vn call p)) = trim (v_title v) \<and>
         content (snd (revert vn call p)) = v_content v \<and>
         (trim (v_title v) = [] \<or> v_content v = [] \<longrightarrow>
            fst (revert vn call p) = Some ValidationError) \<and>
         (validate_page (p\<lparr>content := v_content v, title := trim (v_title v)\<rparr>) \<and>
          other_paths_valid call \<longrightarrow>
            fst (revert vn call p) = write_error call)"
    by blast
qed

theorem revert_version_witness:
  "map versionNumber (history page0) = [1] \<and>
   revert 5 call0 page0 = (Some (Error ''Version not found''), page0) \<and>
   (\<exists>v \<in> set (history page0). versionNumber v = 1) \<and>
   title (snd (revert 1 call0 page0)) = utf16 ''Old'' \<and>
   content (snd (revert 1 call0 page0)) = utf16 ''Hello'' \<and>
   fst (revert 1 call0 page0) = None"
proof -
  have present: "\<exists>v \<in> set (history page0). versionNumber v = 1"
    by (simp add: history_page0)
  have err: "revert 5 call0 page0 = (Some (Error ''Version not found''), page0)"
    by (simp add: revert_def page0_def)
  have ok: "validate_page (page0\<lparr>content := utf16 ''Hello'', title := utf16 ''Old''\<rparr>)"
    "other_paths_valid call0" "write_error call0 = None"
    by (simp_all add: validate_page_def page0_def utf16_def call0_def)
  from revert_version [of page0 1 call0] present
  obtain v where v: "find (\<lambda>w. versionNumber w = 1) (history page0) = Some v"
    and r: "title (snd (revert 1 call0 page0)) = trim (v_title v)"
       "content (snd (revert 1 call0 page0)) = v_content v"
       "validate_page (page0\<lparr>content := v_content v, title := trim (v_title v)\<rparr>) \<and>
        other_paths_valid call0 \<longrightarrow> fst (revert 1 call0 page0) = write_error call0"
    by blast
  from v have "v_title v = utf16 '' Old ''" "v_content v = utf16 ''Hello''"
    by (auto simp: history_page0)
  with r ok present err show ?thesis
    by (simp add: history_page0 trim_utf16_Old)
qed

text \<open>
  C9. \<open>publish()\<close> leaves the page with status \<open>published\<close> and with \<open>publishedAt\<close> equal to
  the clock reading of the call, whatever \<open>publishedAt\<close> held before and however the save
  it ends with turns out; a plain save of a page whose \<open>publishedAt\<close> is set keeps the
  earlier value.
\<close>

theorem publish_stamps_unconditionally:
  "status (snd (publish t_now call p)) = Published \<and>
   publishedAt (snd (publish t_now call p)) = Some t_now \<and>
   (publishedAt p = Some d \<longrightarrow> publishedAt (snd (page_save call p)) = Some d)"
  by (simp add: publish_def page_save_eq pre_save_publishedAt)

theorem publish_stamps_unconditionally_witness:
  "publishedAt (page0\<lparr>status := Published, publishedAt := Some 1500\<rparr>) = Some 1500 \<and>
   fst (publish 9000 call0 (page0\<lparr>status := Published, publishedAt := Some 1500\<rparr>)) = None \<and>
   status (snd (publish 9000 call0
                  (page0\<lparr>status := Published, publishedAt := Some 1500\<rparr>))) = Published \<and>
   publishedAt (snd (publish 9000 call0
                       (page0\<lparr>status := Published, publishedAt := Some 1500\<rparr>))) = Some 9000 \<and>
   publishedAt (snd (page_save call0
                       (page0\<lparr>status := Published, publishedAt := Some 1500\<rparr>))) = Some 1500"
proof -
  have v: "validate_page (page0\<lparr>status := Published, publishedAt := Some 9000\<rparr>)"
    by (simp add: validate_page_def page0_def utf16_def)
  have c: "other_paths_valid call0" "write_error call0 = None"
    by (simp_all add: call0_def)
  have ok: "fst (publish 9000 call0 (page0\<lparr>status := Published, publishedAt := Some 1500\<rparr>)) = None"
    using v c by (simp add: publish_def page_save_eq)
  from publish_stamps_unconditionally
         [of 9000 call0 "page0\<lparr>status := Published, publishedAt := Some 1500\<rparr>" 1500] ok
  show ?thesis by simp
qed

section \<open>Media: tag normalisation and the dimension check\<close>

lemma trim_prefix_suffix:
  "\<exists>pre suf. s = pre @ trim s @ suf"
proof -
  have "s = takeWhile isWhiteSpace s @ dropWhile isWhiteSpace s"
    by simp
  moreover have "rev (dropWhile isWhiteSpace s) =
      takeWhile isWhiteSpace (rev (dropWhile isWhiteSpace s)) @
      dropWhile isWhiteSpace (rev (dropWhile isWhiteSpace s))"
    by simp
  then have "dropWhile isWhiteSpace s =
      trim s @ rev (takeWhile isWhiteSpace (rev (dropWhile isWhiteSpace s)))"
    unfolding trim_def by (metis rev_append rev_rev_ident)
  ultimately show ?thesis
    by metis
qed

lemma trim_no_outer_space:
  "trim s = [] \<or> (\<not> isWhiteSpace (hd (trim s)) \<and> \<not> isWhiteSpace (last (trim s)))"
proof (cases "trim s = []")
  case True
  then show ?thesis by simp
next
  case False
  let ?a = "dropWhile isWhiteSpace s"
  let ?b = "dropWhile isWhiteSpace (rev ?a)"
  from False have b: "?b \<noteq> []"
    by (simp add: trim_def)
  then have hb: "\<not> isWhiteSpace (hd ?b)"
    by (rule hd_dropWhile)
  from b have a: "?a \<noteq> []"
    by (cases "?a = []") simp_all
  then have ha: "\<not> isWhiteSpace (hd ?a)"
    by (rule hd_dropWhile)
  have "rev ?a = takeWhile isWhiteSpace (rev ?a) @ ?b"
    by simp
  then have "?a = rev ?b @ rev (takeWhile isWhiteSpace (rev ?a))"
    by (metis rev_append rev_rev_ident)
  with b have "hd ?a = hd (rev ?b)"
    by (metis hd_append2 rev_is_Nil_conv)
  with ha hb b show ?thesis
    by (simp add: trim_def last_rev)
qed

lemma trim_fixed:
  assumes "s = [] \<or> (\<not> isWhiteSpace (hd s) \<and> \<not> isWhiteSpace (last s))"
  shows "trim s = s"
proof (cases "s = []")
  case True
  then show ?thesis by (simp add: trim_def)
next
  case False
  with assms have h: "\<not> isWhiteSpace (hd s)" and l: "\<not> isWhiteSpace (last s)"
    by auto
  from False h have 1: "dropWhile isWhiteSpace s = s"
    by (simp add: dropWhile_eq_self_iff)
  from False l have 2: "dropWhile isWhiteSpace (rev s) = rev s"
    by (simp add: dropWhile_eq_self_iff hd_rev)
  show ?thesis
    by (simp add: trim_def 1 2)
qed

lemma trim_idem [simp]: "trim (trim s) = trim s"
  by (rule trim_fixed) (rule trim_no_outer_space)

lemma latin1_lower_unit_idem:
  "latin1_lower_unit (latin1_lower_unit c) = latin1_lower_unit c"
proof -
  have "unat (c + 32) = unat c + 32" if "unat c \<le> 222"
    using that by (simp add: unat_add_lem [THEN iffD1])
  then show ?thesis
    by (auto simp: latin1_lower_unit_def Let_def)
qed

lemma set_trim: "set (trim s) \<subseteq> set s"
  unfolding trim_def by (metis set_rev set_dropWhileD subsetI)

text \<open>The function the examples run with has the property the tag theorem asks for.\<close>

lemma latin1_lower_stable:
  "latin1_lower (trim (latin1_lower s)) = trim (latin1_lower s)"
proof -
  have "\<forall>c \<in> set (trim (latin1_lower s)). latin1_lower_unit c = c"
    using set_trim [of "latin1_lower s"]
    by (auto simp: latin1_lower_def latin1_lower_unit_idem)
  then show ?thesis
    by (simp add: latin1_lower_def map_idI)
qed

lemma set_foldl_Set_add: "set (foldl Set_add acc xs) = set acc \<union> set xs"
  by (induction xs arbitrary: acc) (auto simp: Set_add_def)

lemma distinct_foldl_Set_add: "distinct acc \<Longrightarrow> distinct (foldl Set_add acc xs)"
  by (induction xs arbitrary: acc) (auto simp: Set_add_def)

lemma first_index_append:
  "first_index a (xs @ ys) =
     (if a \<in> set xs then first_index a xs else length xs + first_index a ys)"
  by (induction xs) auto

lemma first_index_less: "a \<in> set xs \<Longrightarrow> first_index a xs < length xs"
  by (induction xs) auto

lemma new_Set_snoc:
  "new_Set (xs @ [x]) = (if x \<in> set xs then new_Set xs else new_Set xs @ [x])"
  by (simp add: new_Set_def Set_add_def set_foldl_Set_add)

lemma new_Set_set: "set (new_Set xs) = set xs"
  by (simp add: new_Set_def set_foldl_Set_add)

lemma new_Set_distinct: "distinct (new_Set xs)"
  by (simp add: new_Set_def distinct_foldl_Set_add)

lemma new_Set_order:
  "sorted_wrt (\<lambda>a b. first_index a xs < first_index b xs) (new_Set xs)"
proof (induction xs rule: rev_induct)
  case Nil
  then show ?case by (simp add: new_Set_def)
next
  case (snoc x xs)
  have old: "sorted_wrt (\<lambda>a b. first_index a (xs @ [x]) < first_index b (xs @ [x])) (new_Set xs)"
    using snoc
    by (rule sorted_wrt_mono_rel [rotated]) (simp add: new_Set_set first_index_append)
  show ?case
  proof (cases "x \<in> set xs")
    case True
    with old show ?thesis by (simp add: new_Set_snoc)
  next
    case False
    have "\<forall>a \<in> set (new_Set xs). first_index a (xs @ [x]) < first_index x (xs @ [x])"
      using False by (simp add: new_Set_set first_index_append first_index_less)
    with old False show ?thesis
      by (simp add: new_Set_snoc sorted_wrt_append)
  qed
qed

lemma tags_setter_normalized:
  assumes "\<And>s. lower (trim (lower s)) = trim (lower s)"
  shows "tags_setter lower (new_Set (map (normalize_tag lower) ts))
           = new_Set (map (normalize_tag lower) ts)"
proof -
  have "trim (lower e) = e" if "e \<in> set (new_Set (map (normalize_tag lower) ts))" for e
  proof -
    from that obtain t where "e = trim (lower t)"
      by (auto simp: new_Set_set normalize_tag_def)
    then show ?thesis
      by (simp add: assms)
  qed
  then show ?thesis
    by (simp add: tags_setter_def map_idI)
qed

lemma tags_pre_save:
  assumes "\<And>s. lower (trim (lower s)) = trim (lower s)"
  shows "tags (snd (MediaSchema_pre_save lower m)) =
           (case tags m of None \<Rightarrow> None
            | Some ts \<Rightarrow> Some (new_Set (map (normalize_tag lower) ts)))"
proof -
  have e: "new_Set ([] :: jsstring list) = []"
    by (simp add: new_Set_def)
  show ?thesis
    by (cases "tags m")
       (auto simp: MediaSchema_pre_save_def Let_def normalize_tags_def
                   tags_setter_normalized [OF assms] e)
qed

text \<open>
  C6. \<open>lower\<close> is \<open>String.prototype.toLowerCase\<close>, of which one property is used: a string
  that has been lower-cased and trimmed is not changed by lower-casing it again. After
  the pre-save hook of a media record, whether or not the dimension check then lets the
  save through, every tag is its own lower-case form, no tag occurs twice, the tags are
  exactly the lower-cased and trimmed pre-save tags, and they stand in the order in
  which those first occur in the pre-save array.
\<close>

theorem media_save_tags:
  assumes "\<And>s. lower (trim (lower s)) = trim (lower s)"
    and "tags m = Some ts"
  shows "\<exists>ts'. tags (snd (MediaSchema_pre_save lower m)) = Some ts' \<and>
           (\<forall>t \<in> set ts'. lower t = t) \<and>
           distinct ts' \<and>
           set ts' = (\<lambda>t. trim (lower t)) ` set ts \<and>
           sorted_wrt (\<lambda>a b. first_index a (map (\<lambda>t. trim (lower t)) ts)
                             < first_index b (map (\<lambda>t. trim (lower t)) ts)) ts'"
proof -
  have n: "normalize_tag lower = (\<lambda>t. trim (lower t))"
    by (simp add: normalize_tag_def fun_eq_iff)
  have "tags (snd (MediaSchema_pre_save lower m)) = Some (new_Set (map (\<lambda>t. trim (lower t)) ts))"
    using assms(2) by (simp add: tags_pre_save [OF assms(1)] n)
  moreover have "\<forall>t \<in> set (new_Set (map (\<lambda>t. trim (lower t)) ts)). lower t = t"
    by (auto simp: new_Set_set assms(1))
  moreover have "set (new_Set (map (\<lambda>t. trim (lower t)) ts)) = (\<lambda>t. trim (lower t)) ` set ts"
    by (simp add: new_Set_set)
  ultimately show ?thesis
    using new_Set_distinct [of "map (\<lambda>t. trim (lower t)) ts"]
          new_Set_order [of "map (\<lambda>t. trim (lower t)) ts"]
    by blast
qed

lemma tags_media0:
  "tags media0 = Some [utf16 '' Hero'', utf16 ''banner'', utf16 ''HERO '', utf16 ''Banner'',
                       utf16 ''logo'']"
  by (simp add: media0_def)

lemma normalize_tag_examples:
  "normalize_tag latin1_lower (utf16 '' Hero'') = utf16 ''hero''"
  "normalize_tag latin1_lower (utf16 ''banner'') = utf16 ''banner''"
  "normalize_tag latin1_lower (utf16 ''HERO '') = utf16 ''hero''"
  "normalize_tag latin1_lower (utf16 ''Banner'') = utf16 ''banner''"
  "normalize_tag latin1_lower (utf16 ''logo'') = utf16 ''logo''"
  "normalize_tag latin1_lower (utf16 ''hero'') = utf16 ''hero''"
  by (simp_all add: normalize_tag_def trim_def isWhiteSpace_def
                    latin1_lower_def latin1_lower_unit_def utf16_def)

lemma run_tags_media0:
  "new_Set [utf16 ''hero'', utf16 ''banner'', utf16 ''hero'', utf16 ''banner'', utf16 ''logo'']
     = [utf16 ''hero'', utf16 ''banner'', utf16 ''logo'']"
  by (simp add: new_Set_def Set_add_def utf16_def)

theorem media_save_tags_witness:
  "tags media0 = Some [utf16 '' Hero'', utf16 ''banner'', utf16 ''HERO '', utf16 ''Banner'',
                       utf16 ''logo''] \<and>
   tags (snd (MediaSchema_pre_save latin1_lower media0))
     = Some [utf16 ''hero'', utf16 ''banner'', utf16 ''logo''] \<and>
   map latin1_lower [utf16 ''hero'', utf16 ''banner'', utf16 ''logo'']
     = [utf16 ''hero'', utf16 ''banner'', utf16 ''logo''] \<and>
   distinct [utf16 ''hero'', utf16 ''banner'', utf16 ''logo'']"
proof -
  have run: "tags (snd (MediaSchema_pre_save latin1_lower media0))
               = Some [utf16 ''hero'', utf16 ''banner'', utf16 ''logo'']"
    by (simp add: tags_pre_save [of latin1_lower, OF latin1_lower_stable]
                  tags_media0 normalize_tag_examples run_tags_media0)
  from media_save_tags [of latin1_lower, OF latin1_lower_stable tags_media0]
  obtain ts' where
    "tags (snd (MediaSchema_pre_save latin1_lower media0)) = Some ts'"
    "\<forall>t \<in> set ts'. latin1_lower t = t" "distinct ts'"
    by blast
  with run tags_media0 show ?thesis
    by (simp add: map_idI)
qed

lemma normalize_tags_keeps [simp]:
  "mediaType (normalize_tags lower m) = mediaType m"
  "imageMetadata (normalize_tags lower m) = imageMetadata m"
  "media_id (normalize_tags lower m) = media_id m"
  "version (normalize_tags lower m) = version m"
  "analytics (normalize_tags lower m) = analytics m"
  by (cases "tags m"; simp add: normalize_tags_def)+

lemma check_dimensions_normalize_tags [simp]:
  "check_dimensions (normalize_tags lower m) = check_dimensions m"
  by (simp add: check_dimensions_def)

lemma pre_save_eq:
  "MediaSchema_pre_save lower m = (check_dimensions m, normalize_tags lower m)"
  by (simp add: MediaSchema_pre_save_def Let_def)

lemma truthy_and_not_positive_iff:
  "truthy_and_not_positive x \<longleftrightarrow> (\<exists>n. x = Some n \<and> n < 0)"
  by (cases x) (auto simp: truthy_and_not_positive_def)

text \<open>
  C10. For an image record carrying image metadata, the pre-save hook forwards an error
  exactly when the width or the height is below zero: the width message for a negative
  width, the height message for a negative height beside a width that is not negative,
  each saying that the dimension must be greater than 0. A width or height of 0 is not
  rejected by its check, and with both at 0 the hook lets the save proceed. An image
  record without metadata is never rejected.
\<close>

theorem image_dimension_check:
  "mediaType m = Image_media \<Longrightarrow>
     (imageMetadata m = None \<longrightarrow> fst (MediaSchema_pre_save lower m) = None) \<and>
     (\<forall>im. imageMetadata m = Some im \<longrightarrow>
        (fst (MediaSchema_pre_save lower m) \<noteq> None \<longleftrightarrow>
           (\<exists>w. width im = Some w \<and> w < 0) \<or> (\<exists>h. height im = Some h \<and> h < 0)) \<and>
        ((\<exists>w. width im = Some w \<and> w < 0) \<longrightarrow>
           fst (MediaSchema_pre_save lower m)
             = Some (Error ''Image width must be greater than 0'')) \<and>
        ((\<exists>h. height im = Some h \<and> h < 0) \<and> (\<forall>w. width im = Some w \<longrightarrow> 0 \<le> w) \<longrightarrow>
           fst (MediaSchema_pre_save lower m)
             = Some (Error ''Image height must be greater than 0'')) \<and>
        (width im = Some 0 \<longrightarrow>
           fst (MediaSchema_pre_save lower m)
             \<noteq> Some (Error ''Image width must be greater than 0'')) \<and>
        (height im = Some 0 \<longrightarrow>
           fst (MediaSchema_pre_save lower m)
             \<noteq> Some (Error ''Image height must be greater than 0'')) \<and>
        (width im = Some 0 \<and> height im = Some 0 \<longrightarrow>
           fst (MediaSchema_pre_save lower m) = None))"
  by (auto simp: pre_save_eq check_dimensions_def truthy_and_not_positive_iff)

theorem image_dimension_check_witness:
  "mediaType media0 = Image_media \<and>
   imageMetadata media0 = Some \<lparr>width = Some 0, height = Some 600\<rparr> \<and>
   fst (MediaSchema_pre_save latin1_lower media0) = None \<and>
   fst (MediaSchema_pre_save latin1_lower
          (media0\<lparr>imageMetadata := Some \<lparr>width = Some (- 1), height = Some 0\<rparr>\<rparr>))
     = Some (Error ''Image width must be greater than 0'') \<and>
   fst (MediaSchema_pre_save latin1_lower
          (media0\<lparr>imageMetadata := Some \<lparr>width = Some 0, height = Some (- 1)\<rparr>\<rparr>))
     = Some (Error ''Image height must be greater than 0'') \<and>
   fst (MediaSchema_pre_save latin1_lower
          (media0\<lparr>imageMetadata := Some \<lparr>width = Some 0, height = Some 0\<rparr>\<rparr>)) = None"
proof -
  have i0: "mediaType media0 = Image_media"
    by (simp add: media0_def)
  have i1: "mediaType (media0\<lparr>imageMetadata := x\<rparr>) = Image_media" for x
    by (simp add: media0_def)
  have im0: "imageMetadata media0 = Some \<lparr>width = Some 0, height = Some 600\<rparr>"
    by (simp add: media0_def)
  from image_dimension_check [OF i0, of latin1_lower]
       image_dimension_check [OF i1, of "Some \<lparr>width = Some (- 1), height = Some 0\<rparr>"
                                        latin1_lower]
       image_dimension_check [OF i1, of "Some \<lparr>width = Some 0, height = Some (- 1)\<rparr>"
                                        latin1_lower]
       image_dimension_check [OF i1, of "Some \<lparr>width = Some 0, height = Some 0\<rparr>"
                                        latin1_lower]
       im0 i0
  show ?thesis by simp
qed

section \<open>Counters: what reaches the store\<close>


lemma put_counter_keeps [simp]:
  "media_id (put_counter c v m) = media_id m"
  "version (put_counter c v m) = version m"
  "tags (put_counter c v m) = tags m"
  "mediaType (put_counter c v m) = mediaType m"
  "imageMetadata (put_counter c v m) = imageMetadata m"
  by (cases c; simp add: put_counter_def)+

lemma get_put_counter [simp]: "get_counter c (put_counter c v m) = v"
  by (cases c) (simp_all add: get_counter_def put_counter_def)

lemma get_counter_updates [simp]:
  "get_counter c (m\<lparr>tags := ts\<rparr>) = get_counter c m"
  "get_counter c (m\<lparr>version := k\<rparr>) = get_counter c m"
  "get_counter c (m\<lparr>tags := ts, version := k\<rparr>) = get_counter c m"
  "get_counter c (normalize_tags lower m) = get_counter c m"
  by (cases c; simp add: get_counter_def)+

lemma check_dimensions_put_counter [simp]:
  "check_dimensions (put_counter c v m) = check_dimensions m"
  by (simp add: check_dimensions_def)

lemma validate_media_counter:
  "validate_media (put_counter c v m) \<Longrightarrow> 0 \<le> v"
  by (cases c) (simp_all add: validate_media_def put_counter_def)













section \<open>User: public profile and reset token\<close>

text \<open>
  C7. The object returned by \<open>getPublicProfile()\<close> has none of the keys \<open>password\<close>,
  \<open>verificationToken\<close>, \<open>passwordResetToken\<close> and \<open>passwordResetExpires\<close>, and under every
  other key it holds what the user document holds.
\<close>

theorem public_profile_projection:
  "(k \<in> {''password'', ''verificationToken'', ''passwordResetToken'', ''passwordResetExpires''}
      \<longrightarrow> getPublicProfile u k = None) \<and>
   (k \<notin> {''password'', ''verificationToken'', ''passwordResetToken'', ''passwordResetExpires''}
      \<longrightarrow> getPublicProfile u k = u k) \<and>
   dom (getPublicProfile u) =
     dom u - {''password'', ''verificationToken'', ''passwordResetToken'', ''passwordResetExpires''}"
  by (auto simp: getPublicProfile_def toObject_def delete_key_def Let_def)

theorem public_profile_projection_witness:
  "user0 ''password'' = Some (JString ''$2a$10$hash'') \<and>
   getPublicProfile user0 ''password'' = None \<and>
   getPublicProfile user0 ''passwordResetExpires'' = None \<and>
   getPublicProfile user0 ''email'' = Some (JString ''ayse@example.com'')"
  using public_profile_projection [of "''password''" user0]
        public_profile_projection [of "''passwordResetExpires''" user0]
        public_profile_projection [of "''email''" user0]
  by (simp add: user0_def)

text \<open>
  C8. \<open>generatePasswordResetToken()\<close> returns the hexadecimal form of the random bytes,
  writes the SHA-256 digest of exactly that returned string to \<open>passwordResetToken\<close>, sets
  \<open>passwordResetExpires\<close> to the call time plus 1 800 000 ms (30 minutes), and changes no
  other field, so the plaintext is written nowhere; the stored value differs from the
  plaintext whenever the digest of the token differs from the token.
\<close>

theorem reset_token_hashed:
  "generatePasswordResetToken sha256_hex random_bytes now u = (token, u') \<Longrightarrow>
     token = toString_hex random_bytes \<and>
     u' ''passwordResetToken'' = Some (JString (sha256_hex token)) \<and>
     u' ''passwordResetExpires'' = Some (JDate (now + 1800000)) \<and>
     (\<forall>k. k \<noteq> ''passwordResetToken'' \<and> k \<noteq> ''passwordResetExpires'' \<longrightarrow> u' k = u k) \<and>
     (sha256_hex token \<noteq> token \<longrightarrow> u' ''passwordResetToken'' \<noteq> Some (JString token))"
  by (auto simp: generatePasswordResetToken_def Let_def)

theorem reset_token_hashed_witness:
  "generatePasswordResetToken (\<lambda>s. ''digest-of-'' @ s) [0, 171, 255] 5000 user0
     = (''00abff'',
        user0(''passwordResetToken'' \<mapsto> JString ''digest-of-00abff'',
              ''passwordResetExpires'' \<mapsto> JDate 1805000)) \<and>
   (user0(''passwordResetToken'' \<mapsto> JString ''digest-of-00abff'',
          ''passwordResetExpires'' \<mapsto> JDate 1805000)) ''passwordResetToken''
     = Some (JString ''digest-of-00abff'') \<and>
   (user0(''passwordResetToken'' \<mapsto> JString ''digest-of-00abff'',
          ''passwordResetExpires'' \<mapsto> JDate 1805000)) ''password''
     = user0 ''password''"
proof -
  have hex: "toString_hex [0, 171, 255] = ''00abff''"
    by code_simp
  have run: "generatePasswordResetToken (\<lambda>s. ''digest-of-'' @ s) [0, 171, 255] 5000 user0
     = (''00abff'',
        user0(''passwordResetToken'' \<mapsto> JString ''digest-of-00abff'',
              ''passwordResetExpires'' \<mapsto> JDate 1805000))"
    by (simp add: generatePasswordResetToken_def Let_def hex)
  from reset_token_hashed [OF run] run show ?thesis
    by simp
qed

section \<open>Settings: the contact requirement\<close>

lemma email_example: "matches email_pattern (utf16 ''a@b.co'')"
  by (simp add: email_pattern_def Let_def R_plus_def R_opt_def isWordChar_def utf16_def)

text \<open>
  C2, as stated, fails: a Settings document with an email address and no phone number
  has one of the two channels, and its save is refused with a validation error,
  because \<open>contact.phone\<close> is a required path.
\<close>

theorem settings_one_channel_refused:
  "email (contact (settings0\<lparr>contact := \<lparr>email = Some (utf16 ''a@b.co''), phone = None\<rparr>\<rparr>))
     = Some (utf16 ''a@b.co'') \<and>
   \<not> not_string (email (contact
        (settings0\<lparr>contact := \<lparr>email = Some (utf16 ''a@b.co''), phone = None\<rparr>\<rparr>))) \<and>
   settings_save True None
     (settings0\<lparr>contact := \<lparr>email = Some (utf16 ''a@b.co''), phone = None\<rparr>\<rparr>)
     = Some ValidationError \<and>
   settings_save True None
     (settings0\<lparr>contact := \<lparr>email = Some (utf16 ''a@b.co''), phone = None\<rparr>\<rparr>) \<noteq> None"
  by (simp add: settings_save_def validate_settings_def not_string_def utf16_def)

text \<open>
  C2, amended. Saving a Settings document fails with a validation error when
  \<open>contact.email\<close> is empty or \<open>contact.phone\<close> is empty, since both paths are required and
  validation runs before the pre-save hook. The hook's own contact test forwards its
  error exactly when both are empty. The save passes validation and the hook, and ends
  with the answer of the write, whenever both are present, the email matches the
  declared pattern, the password length is at least 6, the image quality lies between
  1 and 100 and the other paths are valid.
\<close>

theorem settings_contact_required:
  "(not_string (email (contact s)) \<or> not_string (phone (contact s)) \<longrightarrow>
      settings_save other_valid write_err s = Some ValidationError) \<and>
   (SettingsSchema_pre_save s =
        Some (Error ''At least email or phone contact information must be provided'')
      \<longleftrightarrow> not_string (email (contact s)) \<and> not_string (phone (contact s))) \<and>
   (\<not> not_string (email (contact s)) \<and> \<not> not_string (phone (contact s)) \<and>
    email_matches (email (contact s)) \<and> 6 \<le> passwordMinLength (security s) \<and>
    1 \<le> imageQuality (performance s) \<and> imageQuality (performance s) \<le> 100 \<and> other_valid \<longrightarrow>
      settings_save other_valid write_err s = write_err)"
  by (auto simp: settings_save_def validate_settings_def SettingsSchema_pre_save_def
           split: option.splits)

theorem settings_contact_required_witness:
  "not_string (email (contact settings0)) \<and> not_string (phone (contact settings0)) \<and>
   settings_save True None settings0 = Some ValidationError \<and>
   SettingsSchema_pre_save settings0 =
     Some (Error ''At least email or phone contact information must be provided'') \<and>
   settings_save True None
     (settings0\<lparr>contact := \<lparr>email = None, phone = Some (utf16 ''0212'')\<rparr>\<rparr>)
     = Some ValidationError \<and>
   email_matches (Some (utf16 ''a@b.co'')) \<and>
   settings_save True None
     (settings0\<lparr>contact := \<lparr>email = Some (utf16 ''a@b.co''), phone = Some (utf16 ''0212'')\<rparr>\<rparr>)
     = None"
proof -
  have m: "email_matches (Some (utf16 ''a@b.co''))"
    by (simp add: email_matches_def email_example)
  have ne: "utf16 ''a@b.co'' \<noteq> []" "utf16 ''0212'' \<noteq> []"
    by (simp_all add: utf16_def)
  from settings_contact_required [of settings0 True None]
       settings_contact_required
         [of "settings0\<lparr>contact := \<lparr>email = None, phone = Some (utf16 ''0212'')\<rparr>\<rparr>" True None]
       settings_contact_required
         [of "settings0\<lparr>contact := \<lparr>email = Some (utf16 ''a@b.co''),
                                    phone = Some (utf16 ''0212'')\<rparr>\<rparr>" True None]
       m ne
  show ?thesis
    by (simp add: settings0_def not_string_def)
qed

end
